theory Spec2Isabelle
  imports Main "HOL-Library.AList"
begin

section \<open>The IPL scorecard: a shallow embedding of \<^verbatim>\<open>ipl_scorecard.py\<close>\<close>

text \<open>
  Python objects are shared by reference: a \<^verbatim>\<open>Player\<close> is an entry of its team's roster and
  may at the same time be the scorecard's striker or bowler. The model therefore keeps the
  objects in stores indexed by references (natural numbers) and threads one \<open>world\<close>
  value through every method. A method that raises leaves the world as it was at the
  \<^verbatim>\<open>raise\<close>: the result \<open>Inl (e, w)\<close> carries the exception and that world, \<open>Inr w\<close> is a
  normal return.
\<close>

subsection \<open>Exceptions and results\<close>

datatype py_error = KeyError | AttributeError | ValueError | TypeError

type_synonym 's result = "(py_error \<times> 's) + 's"

text \<open>A method body: the statements run in order, and the first one that raises ends the body.\<close>

fun statements :: "('s \<Rightarrow> 's result) list \<Rightarrow> 's \<Rightarrow> 's result" where
  "statements [] s = Inr s"
| "statements (f # fs) s = (case f s of Inl e \<Rightarrow> Inl e | Inr s' \<Rightarrow> statements fs s')"

text \<open>The world in which a call ended, whether it returned or raised.\<close>

fun world_after :: "'s result \<Rightarrow> 's" where
  "world_after (Inl (e, s)) = s"
| "world_after (Inr s) = s"

fun raised :: "'s result \<Rightarrow> py_error option" where
  "raised (Inl (e, s)) = Some e"
| "raised (Inr s) = None"

subsection \<open>Stat counters\<close>

record BattingBehaviour =
  runs_scored :: int
  balls_faced :: int
  boundary_types :: "int list"
  boundaries :: "(int \<times> int) list"

definition BattingBehaviour_init :: BattingBehaviour where
  "BattingBehaviour_init =
     \<lparr>runs_scored = 0, balls_faced = 0, boundary_types = [4, 6], boundaries = []\<rparr>"

text \<open>
  \<^verbatim>\<open>self.boundaries[run] += 1\<close> reads the key before it writes it: on a dictionary without
  the key it raises \<^verbatim>\<open>KeyError\<close>, after the two counters above it have been updated.
\<close>

definition BattingBehaviour_add_run :: "int \<Rightarrow> BattingBehaviour \<Rightarrow> BattingBehaviour result" where
  "BattingBehaviour_add_run run b =
     (let b1 = b\<lparr>BattingBehaviour.runs_scored := BattingBehaviour.runs_scored b + run\<rparr>;
          b2 = b1\<lparr>balls_faced := balls_faced b1 + 1\<rparr>
      in if run \<in> set (boundary_types b2)
         then (case map_of (boundaries b2) run of
                 None \<Rightarrow> Inl (KeyError, b2)
               | Some c \<Rightarrow> Inr (b2\<lparr>boundaries := AList.update run (c + 1) (boundaries b2)\<rparr>))
         else Inr b2)"

record BowlingBehaviour =
  wickets_taken :: int
  runs_accumulated :: int
  balls_done :: int
  wides :: int
  no_balls :: int

definition BowlingBehaviour_init :: BowlingBehaviour where
  "BowlingBehaviour_init =
     \<lparr>wickets_taken = 0, runs_accumulated = 0, balls_done = 0, wides = 0, no_balls = 0\<rparr>"

definition BowlingBehaviour_add_ball :: "BowlingBehaviour \<Rightarrow> BowlingBehaviour" where
  "BowlingBehaviour_add_ball b = b\<lparr>balls_done := balls_done b + 1\<rparr>"

definition BowlingBehaviour_add_wicket :: "BowlingBehaviour \<Rightarrow> BowlingBehaviour" where
  "BowlingBehaviour_add_wicket b = b\<lparr>wickets_taken := wickets_taken b + 1\<rparr>"

definition BowlingBehaviour_add_run :: "int \<Rightarrow> BowlingBehaviour \<Rightarrow> BowlingBehaviour" where
  "BowlingBehaviour_add_run run b = b\<lparr>runs_accumulated := runs_accumulated b + run\<rparr>"

definition BowlingBehaviour_add_extra :: "string \<Rightarrow> int \<Rightarrow> BowlingBehaviour \<Rightarrow> BowlingBehaviour" where
  "BowlingBehaviour_add_extra extra_type run b =
     BowlingBehaviour_add_run run
       (if extra_type = ''wides'' then b\<lparr>wides := wides b + run\<rparr>
        else if extra_type = ''noballs'' then b\<lparr>no_balls := no_balls b + run\<rparr>
        else b)"

subsection \<open>Players and teams\<close>

record Player =
  name :: string
  batting_behaviour :: BattingBehaviour
  bowling_behaviour :: BowlingBehaviour

definition Player_init :: "string \<Rightarrow> Player" where
  "Player_init n =
     \<lparr>name = n, batting_behaviour = BattingBehaviour_init, bowling_behaviour = BowlingBehaviour_init\<rparr>"

text \<open>
  The roster holds references to players, in insertion order. The extras dictionary is an
  association list in insertion order; \<open>map_of\<close> and \<open>AList.update\<close> read and write the
  entry of a key.
\<close>

record Team =
  players :: "nat list"
  extras :: "(string \<times> int) list"
  runs_scored :: int
  wickets :: int

definition Team_init :: Team where
  "Team_init = \<lparr>players = [], extras = [], runs_scored = 0, wickets = 0\<rparr>"

definition Team_add_player :: "nat \<Rightarrow> Team \<Rightarrow> Team" where
  "Team_add_player player t = t\<lparr>players := players t @ [player]\<rparr>"

definition Team_add_run :: "int \<Rightarrow> Team \<Rightarrow> Team" where
  "Team_add_run run t = t\<lparr>Team.runs_scored := Team.runs_scored t + run\<rparr>"

definition Team_add_extras :: "string \<Rightarrow> int \<Rightarrow> Team \<Rightarrow> Team" where
  "Team_add_extras extra_type run t =
     (case map_of (extras t) extra_type of
        None \<Rightarrow> t\<lparr>extras := extras t @ [(extra_type, run)]\<rparr>
      | Some v \<Rightarrow> t\<lparr>extras := AList.update extra_type (v + run) (extras t)\<rparr>)"

definition Team_add_wicket :: "Team \<Rightarrow> Team" where
  "Team_add_wicket t = t\<lparr>wickets := wickets t + 1\<rparr>"

subsection \<open>Over policy\<close>

datatype over_calculator = SixBallOverCalculator

text \<open>Python's \<^verbatim>\<open>//\<close> and \<^verbatim>\<open>%\<close> round towards minus infinity, as \<open>div\<close> and \<open>mod\<close> on \<open>int\<close> do.\<close>

fun calculate :: "over_calculator \<Rightarrow> int \<Rightarrow> int \<times> int" where
  "calculate SixBallOverCalculator balls = (balls div 6, balls mod 6)"

text \<open>The function has no \<^verbatim>\<open>else\<close>: for any other argument it falls off its end and returns
  \<^verbatim>\<open>None\<close>.\<close>

definition get_over_calculator :: "int option \<Rightarrow> over_calculator option" where
  "get_over_calculator num_balls =
     (if num_balls = Some 6 then Some SixBallOverCalculator else None)"

subsection \<open>The scorecard and the object stores\<close>

record ScoreCard =
  balls_per_over :: "int option"
  date :: "string option"
  venue :: "string option"
  city :: "string option"
  batting_team :: "nat option"
  bowling_team :: "nat option"
  striker :: "nat option"
  non_striker :: "nat option"
  current_bowler :: "nat option"
  balls :: int

definition ScoreCard_init :: ScoreCard where
  "ScoreCard_init =
     \<lparr>balls_per_over = None, date = None, venue = None, city = None,
      batting_team = None, bowling_team = None,
      striker = None, non_striker = None, current_bowler = None, balls = 0\<rparr>"

text \<open>
  \<open>Matches_instance\<close> and \<open>Matches_matches\<close> are the class attributes \<^verbatim>\<open>Matches._instance\<close>
  (whether it is set) and \<^verbatim>\<open>Matches.matches\<close>; \<open>next_card\<close> is the reference the next
  \<^verbatim>\<open>ScoreCard()\<close> gets.
\<close>

record world =
  player_objs :: "nat \<Rightarrow> Player"
  team_objs :: "nat \<Rightarrow> Team"
  card_objs :: "nat \<Rightarrow> ScoreCard"
  Matches_instance :: bool
  Matches_matches :: "(string \<times> nat) list"
  next_card :: nat

text \<open>
  A method call through an attribute that may be \<^verbatim>\<open>None\<close>: \<^verbatim>\<open>None\<close> has none of these methods,
  so the call raises \<^verbatim>\<open>AttributeError\<close> and nothing is changed by it.
\<close>

definition call_team :: "nat option \<Rightarrow> (Team \<Rightarrow> Team) \<Rightarrow> world \<Rightarrow> world result" where
  "call_team ref m w =
     (case ref of
        None \<Rightarrow> Inl (AttributeError, w)
      | Some t \<Rightarrow> Inr (w\<lparr>team_objs := (team_objs w)(t := m (team_objs w t))\<rparr>))"

definition set_batting :: "nat \<Rightarrow> BattingBehaviour \<Rightarrow> world \<Rightarrow> world" where
  "set_batting p b w =
     w\<lparr>player_objs := (player_objs w)(p := (player_objs w p)\<lparr>batting_behaviour := b\<rparr>)\<rparr>"

definition call_batting ::
  "nat option \<Rightarrow> (BattingBehaviour \<Rightarrow> BattingBehaviour result) \<Rightarrow> world \<Rightarrow> world result" where
  "call_batting ref m w =
     (case ref of
        None \<Rightarrow> Inl (AttributeError, w)
      | Some p \<Rightarrow>
          (case m (batting_behaviour (player_objs w p)) of
             Inl (e, b) \<Rightarrow> Inl (e, set_batting p b w)
           | Inr b \<Rightarrow> Inr (set_batting p b w)))"

definition call_bowling ::
  "nat option \<Rightarrow> (BowlingBehaviour \<Rightarrow> BowlingBehaviour) \<Rightarrow> world \<Rightarrow> world result" where
  "call_bowling ref m w =
     (case ref of
        None \<Rightarrow> Inl (AttributeError, w)
      | Some p \<Rightarrow>
          Inr (w\<lparr>player_objs :=
                   (player_objs w)(p := (player_objs w p)
                      \<lparr>bowling_behaviour := m (bowling_behaviour (player_objs w p))\<rparr>)\<rparr>))"

definition ScoreCard_add_run :: "nat \<Rightarrow> int \<Rightarrow> world \<Rightarrow> world result" where
  "ScoreCard_add_run self run =
     statements
       [\<lambda>w. call_team (batting_team (card_objs w self)) (Team_add_run run) w,
        \<lambda>w. call_batting (striker (card_objs w self)) (BattingBehaviour_add_run run) w,
        \<lambda>w. call_bowling (current_bowler (card_objs w self)) (BowlingBehaviour_add_run run) w,
        \<lambda>w. call_bowling (current_bowler (card_objs w self)) BowlingBehaviour_add_ball w]"

definition ScoreCard_add_extra :: "nat \<Rightarrow> string \<Rightarrow> int \<Rightarrow> world \<Rightarrow> world result" where
  "ScoreCard_add_extra self extra_type run =
     statements
       [\<lambda>w. call_team (batting_team (card_objs w self)) (Team_add_extras extra_type run) w,
        \<lambda>w. call_team (bowling_team (card_objs w self)) (Team_add_extras extra_type run) w,
        \<lambda>w. call_team (batting_team (card_objs w self)) (Team_add_run run) w,
        \<lambda>w. call_bowling (current_bowler (card_objs w self))
               (BowlingBehaviour_add_extra extra_type run) w]"

definition ScoreCard_add_wicket :: "nat \<Rightarrow> world \<Rightarrow> world result" where
  "ScoreCard_add_wicket self =
     statements
       [\<lambda>w. call_team (batting_team (card_objs w self)) Team_add_wicket w,
        \<lambda>w. call_team (bowling_team (card_objs w self)) Team_add_wicket w,
        \<lambda>w. call_bowling (current_bowler (card_objs w self)) BowlingBehaviour_add_wicket w]"

definition ScoreCard_add_ball :: "nat \<Rightarrow> world \<Rightarrow> world result" where
  "ScoreCard_add_ball self =
     statements
       [\<lambda>w. Inr (w\<lparr>card_objs :=
                     (card_objs w)(self := (card_objs w self)\<lparr>balls := balls (card_objs w self) + 1\<rparr>)\<rparr>),
        \<lambda>w. call_bowling (current_bowler (card_objs w self)) BowlingBehaviour_add_ball w]"

definition ScoreCard_get_overs :: "nat \<Rightarrow> world \<Rightarrow> py_error + (int \<times> int)" where
  "ScoreCard_get_overs self w =
     (case get_over_calculator (balls_per_over (card_objs w self)) of
        None \<Rightarrow> Inl AttributeError
      | Some over_calculator \<Rightarrow> Inr (calculate over_calculator (balls (card_objs w self))))"

text \<open>
  Each loop of \<^verbatim>\<open>set_current_players\<close> runs over the whole roster without a \<^verbatim>\<open>break\<close>: the
  attribute ends as the last player with that name, and keeps its old value when no
  player has it.
\<close>

definition pick_by_name :: "world \<Rightarrow> string \<Rightarrow> nat list \<Rightarrow> nat option \<Rightarrow> nat option" where
  "pick_by_name w n roster current =
     foldl (\<lambda>acc p. if name (player_objs w p) = n then Some p else acc) current roster"

definition update_card :: "nat \<Rightarrow> (ScoreCard \<Rightarrow> ScoreCard) \<Rightarrow> world \<Rightarrow> world" where
  "update_card self f w = w\<lparr>card_objs := (card_objs w)(self := f (card_objs w self))\<rparr>"

definition ScoreCard_set_current_players ::
  "nat \<Rightarrow> string \<Rightarrow> string \<Rightarrow> string \<Rightarrow> world \<Rightarrow> world result" where
  "ScoreCard_set_current_players self striker_name non_striker_name bowler_name =
     statements
       [\<lambda>w. (case batting_team (card_objs w self) of
                None \<Rightarrow> Inl (AttributeError, w)
              | Some t \<Rightarrow> Inr (update_card self
                  (\<lambda>c. c\<lparr>striker := pick_by_name w striker_name (players (team_objs w t)) (striker c)\<rparr>) w)),
        \<lambda>w. (case batting_team (card_objs w self) of
                None \<Rightarrow> Inl (AttributeError, w)
              | Some t \<Rightarrow> Inr (update_card self
                  (\<lambda>c. c\<lparr>non_striker :=
                          pick_by_name w non_striker_name (players (team_objs w t)) (non_striker c)\<rparr>) w)),
        \<lambda>w. (case bowling_team (card_objs w self) of
                None \<Rightarrow> Inl (AttributeError, w)
              | Some t \<Rightarrow> Inr (update_card self
                  (\<lambda>c. c\<lparr>current_bowler :=
                          pick_by_name w bowler_name (players (team_objs w t)) (current_bowler c)\<rparr>) w))]"

definition ScoreCard_set_balls_per_over :: "nat \<Rightarrow> int \<Rightarrow> world \<Rightarrow> world" where
  "ScoreCard_set_balls_per_over self n = update_card self (\<lambda>c. c\<lparr>balls_per_over := Some n\<rparr>)"

definition ScoreCard_set_date :: "nat \<Rightarrow> string \<Rightarrow> world \<Rightarrow> world" where
  "ScoreCard_set_date self d = update_card self (\<lambda>c. c\<lparr>date := Some d\<rparr>)"

definition ScoreCard_set_batting_team :: "nat \<Rightarrow> nat \<Rightarrow> world \<Rightarrow> world" where
  "ScoreCard_set_batting_team self t = update_card self (\<lambda>c. c\<lparr>batting_team := Some t\<rparr>)"

definition ScoreCard_set_bowling_team :: "nat \<Rightarrow> nat \<Rightarrow> world \<Rightarrow> world" where
  "ScoreCard_set_bowling_team self t = update_card self (\<lambda>c. c\<lparr>bowling_team := Some t\<rparr>)"

subsection \<open>Snapshots\<close>

text \<open>The \<^verbatim>\<open>__repr__\<close> methods build nested dictionaries; \<open>pyval\<close> is the type of these values.\<close>

datatype pyval = PNone | PInt int | PStr string | PList "pyval list" | PDict "(pyval \<times> pyval) list"

definition BattingBehaviour_repr :: "BattingBehaviour \<Rightarrow> pyval" where
  "BattingBehaviour_repr b =
     PDict [(PStr ''runs_scored'', PInt (BattingBehaviour.runs_scored b)),
            (PStr ''balls_faced'', PInt (balls_faced b)),
            (PStr ''boundaries'', PDict (map (\<lambda>(k, v). (PInt k, PInt v)) (boundaries b)))]"

definition BowlingBehaviour_repr :: "BowlingBehaviour \<Rightarrow> pyval" where
  "BowlingBehaviour_repr b =
     PDict [(PStr ''runs_accumulated'', PInt (runs_accumulated b)),
            (PStr ''wides'', PInt (wides b)),
            (PStr ''noballs'', PInt (no_balls b)),
            (PStr ''wickets_taken'', PInt (wickets_taken b)),
            (PStr ''balls_done'', PInt (balls_done b))]"

definition Player_repr :: "Player \<Rightarrow> pyval" where
  "Player_repr p =
     PDict [(PStr ''name'', PStr (name p)),
            (PStr ''batting'', BattingBehaviour_repr (batting_behaviour p)),
            (PStr ''bowling'', BowlingBehaviour_repr (bowling_behaviour p))]"

definition Team_repr :: "world \<Rightarrow> Team \<Rightarrow> pyval" where
  "Team_repr w t =
     PDict [(PStr ''runs_scored'', PInt (Team.runs_scored t)),
            (PStr ''wickets'', PInt (wickets t)),
            (PStr ''extras'', PDict (map (\<lambda>(k, v). (PStr k, PInt v)) (extras t))),
            (PStr ''players'', PList (map (\<lambda>p. Player_repr (player_objs w p)) (players t)))]"

text \<open>\<^verbatim>\<open>None.__repr__()\<close> is the string \<^verbatim>\<open>'None'\<close>: an unset team or player does not make the
  snapshot raise. Only \<^verbatim>\<open>get_overs\<close> can.\<close>

definition ScoreCard_repr :: "nat \<Rightarrow> world \<Rightarrow> py_error + pyval" where
  "ScoreCard_repr self w =
     (let c = card_objs w self;
          text_or_none = (\<lambda>v. case v of None \<Rightarrow> PNone | Some s \<Rightarrow> PStr s);
          team = (\<lambda>r. case r of None \<Rightarrow> PStr ''None'' | Some t \<Rightarrow> Team_repr w (team_objs w t));
          player = (\<lambda>r. case r of None \<Rightarrow> PStr ''None'' | Some p \<Rightarrow> Player_repr (player_objs w p))
      in case ScoreCard_get_overs self w of
           Inl e \<Rightarrow> Inl e
         | Inr (overs, balls_curr_over) \<Rightarrow>
             Inr (PDict [(PStr ''date'', text_or_none (date c)),
                         (PStr ''venue'', text_or_none (venue c)),
                         (PStr ''city'', text_or_none (city c)),
                         (PStr ''batting_team'', team (batting_team c)),
                         (PStr ''bowling_team'', team (bowling_team c)),
                         (PStr ''striker'', player (striker c)),
                         (PStr ''non_striker'', player (non_striker c)),
                         (PStr ''bowler'', player (current_bowler c)),
                         (PStr ''overs'', PDict [(PStr ''overs'', PInt overs),
                                                 (PStr ''balls'', PInt balls_curr_over)])]))"

subsection \<open>Reading an integer from a field\<close>

text \<open>
  \<^verbatim>\<open>int(s)\<close> on a string is a builtin of the interpreter, not code of this program. On a
  string of ASCII characters it reads: optional whitespace (tab, line feed, vertical tab,
  form feed, carriage return, space), an optional sign, decimal digits with single
  underscores allowed between digits, optional whitespace; anything else raises
  \<^verbatim>\<open>ValueError\<close>, here \<open>None\<close>. This is fixed for ASCII strings with at most 640 digits.
  Beyond them the interpreter decides: its Unicode tables say which other characters count
  as digits or spaces, and its limit on the length of integer strings may refuse longer
  numbers. The model takes the builtin's result on those strings as the parameter
  \<open>beyond\<close>, and assumes nothing about it.
\<close>

type_synonym builtin_int = "string \<Rightarrow> int option"

definition is_space :: "char \<Rightarrow> bool" where
  "is_space c = (of_char c \<in> set [9, 10, 11, 12, 13, 32 :: nat])"

definition is_digit :: "char \<Rightarrow> bool" where
  "is_digit c = (48 \<le> (of_char c :: nat) \<and> (of_char c :: nat) \<le> 57)"

definition digit_value :: "char \<Rightarrow> nat" where
  "digit_value c = of_char c - 48"

definition strip :: "string \<Rightarrow> string" where
  "strip s = rev (dropWhile is_space (rev (dropWhile is_space s)))"

fun digits_value :: "nat \<Rightarrow> string \<Rightarrow> nat option" where
  "digits_value acc [] = Some acc"
| "digits_value acc (c # cs) =
     (if is_digit c then digits_value (10 * acc + digit_value c) cs
      else if c = CHR ''_'' \<and> cs \<noteq> [] \<and> is_digit (hd cs) then digits_value acc cs
      else None)"

definition unsigned_value :: "string \<Rightarrow> nat option" where
  "unsigned_value s = (if s \<noteq> [] \<and> is_digit (hd s) then digits_value 0 s else None)"

definition ascii_int :: "string \<Rightarrow> int option" where
  "ascii_int s =
     (case strip s of
        [] \<Rightarrow> None
      | c # cs \<Rightarrow>
          if c = CHR ''-'' then map_option (\<lambda>n. - int n) (unsigned_value cs)
          else if c = CHR ''+'' then map_option int (unsigned_value cs)
          else map_option int (unsigned_value (c # cs)))"

definition plain :: "string \<Rightarrow> bool" where
  "plain s = (list_all (\<lambda>c. (of_char c :: nat) < 128) s \<and> length (filter is_digit s) \<le> 640)"

definition py_int :: "builtin_int \<Rightarrow> string \<Rightarrow> int option" where
  "py_int beyond s = (if plain s then ascii_int s else beyond s)"

subsection \<open>Run calculators\<close>

text \<open>An event record is a dictionary from field names to strings; \<^verbatim>\<open>run_info[k]\<close> raises
  \<^verbatim>\<open>KeyError\<close> when the field is absent.\<close>

type_synonym run_info = "string \<Rightarrow> string option"

datatype run_calculator = NormalRunCalculator | ExtraRunCalculator | WicketCalculator

fun match :: "builtin_int \<Rightarrow> run_calculator \<Rightarrow> run_info \<Rightarrow> py_error + bool" where
  "match beyond NormalRunCalculator run_info =
     (case run_info ''runs_off_bat'' of
        None \<Rightarrow> Inl KeyError
      | Some v \<Rightarrow> (case py_int beyond v of None \<Rightarrow> Inl ValueError | Some n \<Rightarrow> Inr (n > 0)))"
| "match beyond ExtraRunCalculator run_info =
     (case run_info ''extras'' of
        None \<Rightarrow> Inl KeyError
      | Some v \<Rightarrow> (case py_int beyond v of None \<Rightarrow> Inl ValueError | Some n \<Rightarrow> Inr (n > 0)))"
| "match beyond WicketCalculator run_info =
     (case run_info ''wicket_type'' of
        None \<Rightarrow> Inl KeyError
      | Some v \<Rightarrow> Inr (v \<noteq> []))"

definition extra_types :: "string list" where
  "extra_types = [''wides'', ''noballs'', ''byes'', ''legbyes'', ''penalty'']"

fun add_extras_loop :: "builtin_int \<Rightarrow> string list \<Rightarrow> nat \<Rightarrow> run_info \<Rightarrow> world \<Rightarrow> world result" where
  "add_extras_loop beyond [] scorecard run_info w = Inr w"
| "add_extras_loop beyond (extra_type # rest) scorecard run_info w =
     (case run_info extra_type of
        None \<Rightarrow> Inl (KeyError, w)
      | Some v \<Rightarrow>
          if v \<noteq> [] then
            (case py_int beyond v of
               None \<Rightarrow> Inl (ValueError, w)
             | Some n \<Rightarrow>
                 (case ScoreCard_add_extra scorecard extra_type n w of
                    Inl e \<Rightarrow> Inl e
                  | Inr w' \<Rightarrow> add_extras_loop beyond rest scorecard run_info w'))
          else add_extras_loop beyond rest scorecard run_info w)"

fun calculate_run :: "builtin_int \<Rightarrow> run_calculator \<Rightarrow> nat \<Rightarrow> run_info \<Rightarrow> world \<Rightarrow> world result" where
  "calculate_run beyond NormalRunCalculator scorecard run_info w =
     (case run_info ''runs_off_bat'' of
        None \<Rightarrow> Inl (KeyError, w)
      | Some v \<Rightarrow>
          (case py_int beyond v of
             None \<Rightarrow> Inl (ValueError, w)
           | Some n \<Rightarrow> ScoreCard_add_run scorecard n w))"
| "calculate_run beyond ExtraRunCalculator scorecard run_info w =
     add_extras_loop beyond extra_types scorecard run_info w"
| "calculate_run beyond WicketCalculator scorecard run_info w = ScoreCard_add_wicket scorecard w"

definition get_run_calculators :: "run_calculator list" where
  "get_run_calculators = [NormalRunCalculator, ExtraRunCalculator, WicketCalculator]"

subsection \<open>The match registry\<close>

text \<open>\<^verbatim>\<open>Matches()\<close>: the first call creates the singleton and resets the dictionary.\<close>

definition Matches_new :: "world \<Rightarrow> world" where
  "Matches_new w =
     (if \<not> Matches_instance w then w\<lparr>Matches_instance := True, Matches_matches := []\<rparr> else w)"

text \<open>
  A \<^verbatim>\<open>ScoreCard\<close> object is truthy, so a registered identifier returns its scorecard; any
  other identifier gets a new \<^verbatim>\<open>ScoreCard()\<close>, stored under it. No path of the method raises.
\<close>

definition Matches_get_scorecard :: "string \<Rightarrow> world \<Rightarrow> (py_error \<times> world) + (nat \<times> world)" where
  "Matches_get_scorecard match_id w =
     (case map_of (Matches_matches w) match_id of
        Some scorecard \<Rightarrow> Inr (scorecard, w)
      | None \<Rightarrow>
          (let scorecard = next_card w
           in Inr (scorecard,
                   w\<lparr>card_objs := (card_objs w)(scorecard := ScoreCard_init),
                     Matches_matches := Matches_matches w @ [(match_id, scorecard)],
                     next_card := Suc scorecard\<rparr>)))"

subsection \<open>Parsers\<close>

definition make_dict :: "string list \<Rightarrow> run_info" where
  "make_dict request = Map.empty"

text \<open>The loop of \<^verbatim>\<open>ScoreEntryParser.parse\<close> over the run calculators.\<close>

fun run_calculators_loop :: "builtin_int \<Rightarrow> run_calculator list \<Rightarrow> nat \<Rightarrow> run_info \<Rightarrow> world \<Rightarrow> world result" where
  "run_calculators_loop beyond [] scorecard run_info w = Inr w"
| "run_calculators_loop beyond (run_calculator # rest) scorecard run_info w =
     (case match beyond run_calculator run_info of
        Inl e \<Rightarrow> Inl (e, w)
      | Inr matches \<Rightarrow>
          if matches then
            (case calculate_run beyond run_calculator scorecard run_info w of
               Inl e \<Rightarrow> Inl e
             | Inr w' \<Rightarrow> run_calculators_loop beyond rest scorecard run_info w')
          else run_calculators_loop beyond rest scorecard run_info w)"

text \<open>The body of \<^verbatim>\<open>ScoreEntryParser.parse\<close> from the dictionary on.\<close>

definition parse_run_info :: "builtin_int \<Rightarrow> run_info \<Rightarrow> world \<Rightarrow> (py_error \<times> world) + (pyval \<times> world)" where
  "parse_run_info beyond run_info w =
     (let w1 = Matches_new w
      in case run_info ''match_id'' of
           None \<Rightarrow> Inl (KeyError, w1)
         | Some match_id \<Rightarrow>
             (case Matches_get_scorecard match_id w1 of
                Inl e \<Rightarrow> Inl e
              | Inr (scorecard, w2) \<Rightarrow>
                  (case run_calculators_loop beyond get_run_calculators scorecard run_info w2 of
                     Inl e \<Rightarrow> Inl e
                   | Inr w3 \<Rightarrow>
                       (case ScoreCard_repr scorecard w3 of
                          Inl e \<Rightarrow> Inl (e, w3)
                        | Inr r \<Rightarrow> Inr (r, w3)))))"

definition ScoreEntryParser_parse ::
  "builtin_int \<Rightarrow> string list \<Rightarrow> world \<Rightarrow> (py_error \<times> world) + (pyval \<times> world)" where
  "ScoreEntryParser_parse beyond request w = parse_run_info beyond (make_dict request) w"

text \<open>\<^verbatim>\<open>InfoEntryParser.parse\<close> calls \<^verbatim>\<open>get_scorecard\<close> without its argument.\<close>

definition InfoEntryParser_parse :: "string list \<Rightarrow> world \<Rightarrow> (py_error \<times> world) + (pyval \<times> world)" where
  "InfoEntryParser_parse request w = Inl (TypeError, Matches_new w)"

datatype parser = InfoEntryParser | ScoreEntryParser

definition parser_factory :: "string list \<Rightarrow> parser" where
  "parser_factory event = (if length event \<le> 5 then InfoEntryParser else ScoreEntryParser)"

definition handle_stream_message ::
  "builtin_int \<Rightarrow> string list \<Rightarrow> world \<Rightarrow> (py_error \<times> world) + (pyval \<times> world)" where
  "handle_stream_message beyond event w =
     (case parser_factory event of
        InfoEntryParser \<Rightarrow> InfoEntryParser_parse event w
      | ScoreEntryParser \<Rightarrow> ScoreEntryParser_parse beyond event w)"

subsection \<open>Sequences of mutations and the team total\<close>

datatype mutation = RunsOffBat int | Extra string int | Wicket | BallBowled

fun apply_mutation :: "nat \<Rightarrow> mutation \<Rightarrow> world \<Rightarrow> world result" where
  "apply_mutation self (RunsOffBat n) w = ScoreCard_add_run self n w"
| "apply_mutation self (Extra extra_type n) w = ScoreCard_add_extra self extra_type n w"
| "apply_mutation self Wicket w = ScoreCard_add_wicket self w"
| "apply_mutation self BallBowled w = ScoreCard_add_ball self w"

text \<open>The worlds after each mutation of a sequence, in order. A mutation that raises leaves
  the world in which it raised, and the sequence goes on from there.\<close>

fun run_mutations :: "nat \<Rightarrow> mutation list \<Rightarrow> world \<Rightarrow> world list" where
  "run_mutations self [] w = []"
| "run_mutations self (m # ms) w =
     (let w' = world_after (apply_mutation self m w) in w' # run_mutations self ms w')"

definition bat_runs :: "world \<Rightarrow> nat \<Rightarrow> int" where
  "bat_runs w p = BattingBehaviour.runs_scored (batting_behaviour (player_objs w p))"

text \<open>The runs off the bat of the batters of a team: every player of the roster once.\<close>

definition batters_runs :: "world \<Rightarrow> nat \<Rightarrow> int" where
  "batters_runs w t = sum_list (map (bat_runs w) (remdups (players (team_objs w t))))"

definition extras_total :: "world \<Rightarrow> nat \<Rightarrow> int" where
  "extras_total w t = sum_list (map snd (extras (team_objs w t)))"

definition total_is_bat_plus_extras :: "world \<Rightarrow> nat \<Rightarrow> bool" where
  "total_is_bat_plus_extras w t =
     (Team.runs_scored (team_objs w t) = batters_runs w t + extras_total w t)"

text \<open>
  A match that has begun: both teams, the striker and the bowler are set, the two teams are
  two objects, and the striker is on the batting team's roster.
\<close>

definition match_begun :: "nat \<Rightarrow> world \<Rightarrow> bool" where
  "match_begun self w =
     (let c = card_objs w self
      in case (batting_team c, bowling_team c, striker c, current_bowler c) of
           (Some bt, Some wt, Some s, Some b) \<Rightarrow> bt \<noteq> wt \<and> s \<in> set (players (team_objs w bt))
         | _ \<Rightarrow> False)"

text \<open>The match has begun, team \<open>t\<close> bats, and its total is the sum of its parts.\<close>

definition begun_with :: "nat \<Rightarrow> nat \<Rightarrow> world \<Rightarrow> bool" where
  "begun_with self t w =
     (match_begun self w \<and> batting_team (card_objs w self) = Some t \<and> total_is_bat_plus_extras w t)"

definition legal_balls :: "world \<Rightarrow> nat \<Rightarrow> int" where
  "legal_balls w p = balls_done (bowling_behaviour (player_objs w p))"

subsection \<open>Example worlds\<close>

text \<open>Nothing has been created yet.\<close>

definition empty_world :: world where
  "empty_world =
     \<lparr>player_objs = (\<lambda>p. Player_init []), team_objs = (\<lambda>t. Team_init),
      card_objs = (\<lambda>c. ScoreCard_init),
      Matches_instance = False, Matches_matches = [], next_card = 0\<rparr>"

text \<open>
  One match: scorecard 0, registered as ``335982'', six-ball overs; team 0 bats with
  players 0 and 1, team 1 bowls with player 2; player 0 is on strike and player 2 bowls.
  Every player is as \<^verbatim>\<open>Player(name)\<close> makes it.
\<close>

definition match_world :: world where
  "match_world =
     \<lparr>player_objs = (\<lambda>p. Player_init [])
        (0 := Player_init ''Gaikwad'', 1 := Player_init ''Conway'', 2 := Player_init ''Umesh''),
      team_objs = (\<lambda>t. Team_init)
        (0 := Team_init\<lparr>players := [0, 1]\<rparr>, 1 := Team_init\<lparr>players := [2]\<rparr>),
      card_objs = (\<lambda>c. ScoreCard_init)
        (0 := ScoreCard_init\<lparr>balls_per_over := Some 6, batting_team := Some 0,
               bowling_team := Some 1, striker := Some 0, non_striker := Some 1,
               current_bowler := Some 2\<rparr>),
      Matches_instance = True, Matches_matches = [(''335982'', 0)], next_card = 1\<rparr>"

text \<open>The same match with a fourth player object, made by \<^verbatim>\<open>Player('Gaikwad')\<close> and on no roster.\<close>

definition namesake_world :: world where
  "namesake_world = match_world\<lparr>player_objs := (player_objs match_world)(3 := Player_init ''Gaikwad'')\<rparr>"

text \<open>Event records. A single with a bye and a run-out:\<close>

definition single_event :: run_info where
  "single_event =
     map_of [(''match_id'', ''335982''), (''runs_off_bat'', ''1''), (''extras'', ''1''),
             (''wides'', []), (''noballs'', []), (''byes'', ''1''), (''legbyes'', []),
             (''penalty'', []), (''wicket_type'', ''run out'')]"

text \<open>The same with a four off the bat:\<close>

definition boundary_event :: run_info where
  "boundary_event = single_event(''runs_off_bat'' \<mapsto> ''4'')"

text \<open>A single, with an extras field that is not a number:\<close>

definition malformed_extras_event :: run_info where
  "malformed_extras_event = single_event(''extras'' \<mapsto> ''x'', ''wicket_type'' \<mapsto> [])"

text \<open>A runs field that is not a number:\<close>

definition malformed_runs_event :: run_info where
  "malformed_runs_event = single_event(''runs_off_bat'' \<mapsto> ''x'')"

text \<open>A single with a wide, and a byes field that is not a number:\<close>

definition malformed_category_event :: run_info where
  "malformed_category_event =
     single_event(''extras'' \<mapsto> ''2'', ''wides'' \<mapsto> ''1'', ''byes'' \<mapsto> ''x'', ''wicket_type'' \<mapsto> [])"

text \<open>No run, a zero extras total, and a byes field that is not a number:\<close>

definition unread_category_event :: run_info where
  "unread_category_event =
     single_event(''runs_off_bat'' \<mapsto> ''0'', ''extras'' \<mapsto> ''0'', ''byes'' \<mapsto> ''x'',
       ''wicket_type'' \<mapsto> [])"

subsection \<open>The steps of the dispatcher\<close>

text \<open>The first computation runs; if it returns, the exception is raised in the world it left.\<close>

definition then_raise :: "py_error \<Rightarrow> 's result \<Rightarrow> 's result" where
  "then_raise e r = (case r of Inl x \<Rightarrow> Inl x | Inr s \<Rightarrow> Inl (e, s))"

text \<open>What the loop does for the runs off the bat once they are read as \<open>n\<close>, and for the
  wicket type \<open>k\<close>.\<close>

definition run_part :: "nat \<Rightarrow> int \<Rightarrow> world \<Rightarrow> world result" where
  "run_part scorecard n w = (if 0 < n then ScoreCard_add_run scorecard n w else Inr w)"

definition wicket_part :: "nat \<Rightarrow> string \<Rightarrow> world \<Rightarrow> world result" where
  "wicket_part scorecard k w = (if k \<noteq> [] then ScoreCard_add_wicket scorecard w else Inr w)"

subsection \<open>Rosters by name\<close>

text \<open>The number of roster entries of a team that carry a name.\<close>

definition roster_entries :: "world \<Rightarrow> nat \<Rightarrow> string \<Rightarrow> nat" where
  "roster_entries w t n = length (filter (\<lambda>p. name (player_objs w p) = n) (players (team_objs w t)))"

text \<open>The last player of a roster with a name, if there is one.\<close>

definition last_named :: "world \<Rightarrow> string \<Rightarrow> nat list \<Rightarrow> nat option" where
  "last_named w n roster =
     (let ps = filter (\<lambda>p. name (player_objs w p) = n) roster
      in if ps = [] then None else Some (last ps))"

subsection \<open>Ball counts\<close>

text \<open>The second world has the legal-ball count of every player and every scorecard of the
  first.\<close>

definition same_counts :: "world \<Rightarrow> world \<Rightarrow> bool" where
  "same_counts w w' = (legal_balls w' = legal_balls w \<and> card_objs w' = card_objs w)"

section \<open>Properties\<close>

lemmas call_defs = call_team_def call_batting_def call_bowling_def set_batting_def update_card_def

subsection \<open>Sums over rosters and dictionaries\<close>

lemma sum_list_if_absent:
  "x \<notin> set xs \<Longrightarrow> sum_list (map (\<lambda>p. if p = x then a else f p) xs) = sum_list (map f xs)"
  by (induction xs) auto

lemma sum_list_if_one:
  "distinct xs \<Longrightarrow> x \<in> set xs \<Longrightarrow>
   sum_list (map (\<lambda>p. if p = x then a else f p) xs) = sum_list (map f xs) - f x + (a::int)"
  by (induction xs) (auto simp: sum_list_if_absent)

lemma sum_list_update_one:
  "distinct xs \<Longrightarrow> x \<in> set xs \<Longrightarrow>
   sum_list (map (f(x := a)) xs) = sum_list (map f xs) - f x + (a::int)"
  unfolding fun_upd_def by (rule sum_list_if_one)

lemma sum_list_alist_update:
  "map_of xs k = Some v \<Longrightarrow>
   sum_list (map snd (AList.update k (v + n) xs)) = sum_list (map snd xs) + (n::int)"
  by (induction xs) (auto split: if_splits)

lemma extras_add_extras:
  "sum_list (map snd (extras (Team_add_extras k n t))) = sum_list (map snd (extras t)) + n"
  by (simp add: Team_add_extras_def sum_list_alist_update split: option.splits)

lemma players_add_extras: "players (Team_add_extras k n t) = players t"
  by (simp add: Team_add_extras_def split: option.splits)

lemma runs_add_extras: "Team.runs_scored (Team_add_extras k n t) = Team.runs_scored t"
  by (simp add: Team_add_extras_def split: option.splits)

lemma bat_runs_cong:
  "(\<And>p. batting_behaviour (player_objs w' p) = batting_behaviour (player_objs w p)) \<Longrightarrow>
   bat_runs w' = bat_runs w"
  by (rule ext) (simp add: bat_runs_def)

lemma bat_runs_bowling:
  "bat_runs (w\<lparr>player_objs := (player_objs w)(b := (player_objs w b)\<lparr>bowling_behaviour := x\<rparr>)\<rparr>) = bat_runs w"
  by (rule ext) (simp add: bat_runs_def)

lemma bat_runs_teams: "bat_runs (w\<lparr>team_objs := x\<rparr>) = bat_runs w"
  by (rule ext) (simp add: bat_runs_def)

lemma bat_runs_cards: "bat_runs (w\<lparr>card_objs := x\<rparr>) = bat_runs w"
  by (rule ext) (simp add: bat_runs_def)

lemma bat_runs_batting:
  "bat_runs (set_batting s b w) = (bat_runs w)(s := BattingBehaviour.runs_scored b)"
  by (rule ext) (simp add: bat_runs_def set_batting_def)

lemma batting_add_run_runs:
  "BattingBehaviour.runs_scored (world_after (BattingBehaviour_add_run n b)) = BattingBehaviour.runs_scored b + n"
  by (simp add: BattingBehaviour_add_run_def Let_def split: option.splits)

lemma add_run_view:
  assumes "batting_team (card_objs w self) = Some bt" "striker (card_objs w self) = Some s"
    "current_bowler (card_objs w self) = Some b"
  shows "team_objs (world_after (ScoreCard_add_run self n w)) = (team_objs w)(bt := Team_add_run n (team_objs w bt))"
    and "bat_runs (world_after (ScoreCard_add_run self n w)) = (bat_runs w)(s := bat_runs w s + n)"
    and "card_objs (world_after (ScoreCard_add_run self n w)) = card_objs w"
proof -
  let ?w1 = "w\<lparr>team_objs := (team_objs w)(bt := Team_add_run n (team_objs w bt))\<rparr>"
  let ?r = "BattingBehaviour_add_run n (batting_behaviour (player_objs w s))"
  let ?w2 = "set_batting s (world_after ?r) ?w1"
  have runs: "bat_runs ?w2 = (bat_runs w)(s := bat_runs w s + n)"
    by (simp add: bat_runs_batting batting_add_run_runs bat_runs_teams) (simp add: bat_runs_def)
  have t2: "team_objs ?w2 = (team_objs w)(bt := Team_add_run n (team_objs w bt))"
    and c2: "card_objs ?w2 = card_objs w"
    by (simp_all add: set_batting_def)
  show "team_objs (world_after (ScoreCard_add_run self n w)) = (team_objs w)(bt := Team_add_run n (team_objs w bt))"
    using assms
    by (cases ?r) (auto simp: ScoreCard_add_run_def call_defs)
  show "card_objs (world_after (ScoreCard_add_run self n w)) = card_objs w"
    using assms
    by (cases ?r) (auto simp: ScoreCard_add_run_def call_defs)
  show "bat_runs (world_after (ScoreCard_add_run self n w)) = (bat_runs w)(s := bat_runs w s + n)"
  proof (cases ?r)
    case (Inl e)
    then obtain err b' where e: "e = (err, b')" by (cases e)
    with Inl have "world_after (ScoreCard_add_run self n w) = ?w2"
      using assms by (simp add: ScoreCard_add_run_def call_team_def call_batting_def)
    with runs show ?thesis by simp
  next
    case (Inr b')
    then have "world_after (ScoreCard_add_run self n w) =
      (let w3 = ?w2\<lparr>player_objs := (player_objs ?w2)(b := (player_objs ?w2 b)\<lparr>bowling_behaviour := BowlingBehaviour_add_run n (bowling_behaviour (player_objs ?w2 b))\<rparr>)\<rparr>
       in w3\<lparr>player_objs := (player_objs w3)(b := (player_objs w3 b)\<lparr>bowling_behaviour := BowlingBehaviour_add_ball (bowling_behaviour (player_objs w3 b))\<rparr>)\<rparr>)"
      using assms by (simp add: ScoreCard_add_run_def call_team_def call_batting_def call_bowling_def set_batting_def Let_def)
    then show ?thesis using runs by (simp only: Let_def bat_runs_bowling)
  qed
qed

lemma add_extra_view:
  assumes "batting_team (card_objs w self) = Some bt" "bowling_team (card_objs w self) = Some wt"
    "current_bowler (card_objs w self) = Some b" "bt \<noteq> wt"
  shows "team_objs (world_after (ScoreCard_add_extra self k n w)) bt =
           Team_add_run n (Team_add_extras k n (team_objs w bt))"
    and "bat_runs (world_after (ScoreCard_add_extra self k n w)) = bat_runs w"
    and "card_objs (world_after (ScoreCard_add_extra self k n w)) = card_objs w"
proof -
  show "bat_runs (world_after (ScoreCard_add_extra self k n w)) = bat_runs w"
    using assms by (intro bat_runs_cong) (simp add: ScoreCard_add_extra_def call_team_def call_bowling_def)
qed (use assms in \<open>simp_all add: ScoreCard_add_extra_def call_team_def call_bowling_def\<close>)

lemma add_wicket_view:
  assumes "batting_team (card_objs w self) = Some bt" "bowling_team (card_objs w self) = Some wt"
    "current_bowler (card_objs w self) = Some b" "bt \<noteq> wt"
  shows "team_objs (world_after (ScoreCard_add_wicket self w)) bt = Team_add_wicket (team_objs w bt)"
    and "bat_runs (world_after (ScoreCard_add_wicket self w)) = bat_runs w"
    and "card_objs (world_after (ScoreCard_add_wicket self w)) = card_objs w"
proof -
  show "bat_runs (world_after (ScoreCard_add_wicket self w)) = bat_runs w"
    using assms by (intro bat_runs_cong) (simp add: ScoreCard_add_wicket_def call_team_def call_bowling_def)
qed (use assms in \<open>simp_all add: ScoreCard_add_wicket_def call_team_def call_bowling_def\<close>)

lemma add_ball_view:
  assumes "current_bowler (card_objs w self) = Some b"
  shows "team_objs (world_after (ScoreCard_add_ball self w)) = team_objs w"
    and "bat_runs (world_after (ScoreCard_add_ball self w)) = bat_runs w"
    and "card_objs (world_after (ScoreCard_add_ball self w)) =
           (card_objs w)(self := (card_objs w self)\<lparr>balls := balls (card_objs w self) + 1\<rparr>)"
proof -
  show "bat_runs (world_after (ScoreCard_add_ball self w)) = bat_runs w"
    using assms by (intro bat_runs_cong) (simp add: ScoreCard_add_ball_def call_bowling_def)
qed (use assms in \<open>simp_all add: ScoreCard_add_ball_def call_bowling_def\<close>)

lemma match_begunE:
  assumes "match_begun self w"
  obtains bt wt s b where "batting_team (card_objs w self) = Some bt"
    "bowling_team (card_objs w self) = Some wt" "striker (card_objs w self) = Some s"
    "current_bowler (card_objs w self) = Some b" "bt \<noteq> wt" "s \<in> set (players (team_objs w bt))"
  using assms by (auto simp: match_begun_def Let_def split: option.splits)

lemma match_begunI:
  "batting_team (card_objs w self) = Some bt \<Longrightarrow>
    bowling_team (card_objs w self) = Some wt \<Longrightarrow> striker (card_objs w self) = Some s \<Longrightarrow>
    current_bowler (card_objs w self) = Some b \<Longrightarrow> bt \<noteq> wt \<Longrightarrow> s \<in> set (players (team_objs w bt))
   \<Longrightarrow> match_begun self w"
  by (simp add: match_begun_def)

lemma total_inv_alt:
  "total_is_bat_plus_extras w t \<longleftrightarrow>
     Team.runs_scored (team_objs w t) =
       sum_list (map (bat_runs w) (remdups (players (team_objs w t)))) + sum_list (map snd (extras (team_objs w t)))"
  by (simp add: total_is_bat_plus_extras_def batters_runs_def extras_total_def)

lemma step_preserves:
  assumes "begun_with self t w"
  shows "begun_with self t (world_after (apply_mutation self m w))"
proof -
  from assms have mb: "match_begun self w" and bt: "batting_team (card_objs w self) = Some t"
    and inv: "total_is_bat_plus_extras w t"
    by (simp_all add: begun_with_def)
  from mb bt obtain wt s b where refs: "bowling_team (card_objs w self) = Some wt"
    "striker (card_objs w self) = Some s" "current_bowler (card_objs w self) = Some b"
    "t \<noteq> wt" "s \<in> set (players (team_objs w t))"
    by (auto elim!: match_begunE)
  show ?thesis
  proof (cases m)
    case (RunsOffBat n)
    note v = add_run_view [OF bt refs(2) refs(3), of n]
    have "match_begun self (world_after (ScoreCard_add_run self n w))"
      using bt refs by (intro match_begunI [where bt = t and wt = wt and s = s and b = b]) (simp_all add: v Team_add_run_def)
    moreover have "total_is_bat_plus_extras (world_after (ScoreCard_add_run self n w)) t"
      using inv refs(5)
      by (simp add: total_inv_alt v Team_add_run_def sum_list_update_one)
    ultimately show ?thesis using RunsOffBat bt by (simp add: begun_with_def v)
  next
    case (Extra k n)
    note v = add_extra_view [OF bt refs(1) refs(3) refs(4), of k n]
    have "match_begun self (world_after (ScoreCard_add_extra self k n w))"
      using bt refs by (intro match_begunI [where bt = t and wt = wt and s = s and b = b]) (simp_all add: v Team_add_run_def players_add_extras)
    moreover have "total_is_bat_plus_extras (world_after (ScoreCard_add_extra self k n w)) t"
      using inv
      by (simp add: total_inv_alt v Team_add_run_def players_add_extras runs_add_extras extras_add_extras)
    ultimately show ?thesis using Extra bt by (simp add: begun_with_def v)
  next
    case Wicket
    note v = add_wicket_view [OF bt refs(1) refs(3) refs(4)]
    have "match_begun self (world_after (ScoreCard_add_wicket self w))"
      using bt refs by (intro match_begunI [where bt = t and wt = wt and s = s and b = b]) (simp_all add: v Team_add_wicket_def)
    moreover have "total_is_bat_plus_extras (world_after (ScoreCard_add_wicket self w)) t"
      using inv
      by (simp add: total_inv_alt v Team_add_wicket_def)
    ultimately show ?thesis using Wicket bt by (simp add: begun_with_def v)
  next
    case BallBowled
    note v = add_ball_view [OF refs(3)]
    have "match_begun self (world_after (ScoreCard_add_ball self w))"
      using bt refs by (intro match_begunI [where bt = t and wt = wt and s = s and b = b]) (simp_all add: v)
    moreover have "total_is_bat_plus_extras (world_after (ScoreCard_add_ball self w)) t"
      using inv
      by (simp add: total_inv_alt v)
    ultimately show ?thesis using BallBowled bt by (simp add: begun_with_def v)
  qed
qed

lemma run_preserves:
  "begun_with self t w \<Longrightarrow> list_all (begun_with self t) (run_mutations self ms w)"
  by (induction ms arbitrary: w) (simp_all add: Let_def step_preserves)

lemmas example_defs = match_world_def Player_init_def BattingBehaviour_init_def
  BowlingBehaviour_init_def Team_init_def ScoreCard_init_def

subsection \<open>Runs off the bat\<close>

text \<open>
  Off a boundary value, \<^verbatim>\<open>ScoreCard.add_run\<close> returns and has updated the team, the striker
  and the bowler.
\<close>

lemma add_run_off_boundary:
  assumes "batting_team (card_objs w self) = Some t" "striker (card_objs w self) = Some s"
    "current_bowler (card_objs w self) = Some b"
    "n \<notin> set (boundary_types (batting_behaviour (player_objs w s)))"
  shows "raised (ScoreCard_add_run self n w) = None"
    and "Team.runs_scored (team_objs (world_after (ScoreCard_add_run self n w)) t) =
           Team.runs_scored (team_objs w t) + n"
    and "bat_runs (world_after (ScoreCard_add_run self n w)) s = bat_runs w s + n"
    and "balls_faced (batting_behaviour (player_objs (world_after (ScoreCard_add_run self n w)) s)) =
           balls_faced (batting_behaviour (player_objs w s)) + 1"
    and "boundaries (batting_behaviour (player_objs (world_after (ScoreCard_add_run self n w)) s)) =
           boundaries (batting_behaviour (player_objs w s))"
    and "runs_accumulated (bowling_behaviour (player_objs (world_after (ScoreCard_add_run self n w)) b)) =
           runs_accumulated (bowling_behaviour (player_objs w b)) + n"
    and "legal_balls (world_after (ScoreCard_add_run self n w)) b = legal_balls w b + 1"
  using assms
  by (simp_all add: ScoreCard_add_run_def call_defs BattingBehaviour_add_run_def Team_add_run_def
      BowlingBehaviour_add_run_def BowlingBehaviour_add_ball_def bat_runs_def legal_balls_def)

text \<open>
  On a boundary value whose bucket is missing from the striker's dictionary, the call raises
  \<^verbatim>\<open>KeyError\<close>; no bowler has been touched and the dictionary is as it was. A player made by
  \<^verbatim>\<open>Player(name)\<close> has an empty dictionary, and no method adds a key to it.
\<close>

lemma add_run_missing_bucket:
  assumes "batting_team (card_objs w self) = Some t" "striker (card_objs w self) = Some s"
    "n \<in> set (boundary_types (batting_behaviour (player_objs w s)))"
    "map_of (boundaries (batting_behaviour (player_objs w s))) n = None"
  shows "raised (ScoreCard_add_run self n w) = Some KeyError"
    and "bowling_behaviour (player_objs (world_after (ScoreCard_add_run self n w)) p) =
           bowling_behaviour (player_objs w p)"
    and "boundaries (batting_behaviour (player_objs (world_after (ScoreCard_add_run self n w)) s)) =
           boundaries (batting_behaviour (player_objs w s))"
  using assms
  by (simp_all add: ScoreCard_add_run_def call_defs BattingBehaviour_add_run_def Team_add_run_def)

text \<open>
  Claim C1 says that \<^verbatim>\<open>ScoreCard.add_run(n)\<close>, for every \<open>n \<ge> 0\<close>, adds \<open>n\<close> to the batting
  team's total and to the striker's runs, one ball faced to the striker, one to the
  boundary bucket of \<open>n\<close> when \<open>n\<close> is 4 or 6, \<open>n\<close> to the bowler's runs conceded and one legal
  ball to the bowler. The code does not do this for a four: in the example match, with
  players as \<^verbatim>\<open>Player(name)\<close> makes them, \<^verbatim>\<open>add_run(4)\<close> raises \<^verbatim>\<open>KeyError\<close> after the team
  total, the striker's runs and the striker's balls faced have been updated; no bucket is
  incremented, and the bowler's runs conceded and legal balls stay 0.
\<close>

theorem add_run_boundary_KeyError:
  "raised (ScoreCard_add_run 0 4 match_world) = Some KeyError \<and>
   Team.runs_scored (team_objs (world_after (ScoreCard_add_run 0 4 match_world)) 0) = 4 \<and>
   bat_runs (world_after (ScoreCard_add_run 0 4 match_world)) 0 = 4 \<and>
   balls_faced (batting_behaviour (player_objs (world_after (ScoreCard_add_run 0 4 match_world)) 0)) = 1 \<and>
   boundaries (batting_behaviour (player_objs (world_after (ScoreCard_add_run 0 4 match_world)) 0)) = [] \<and>
   runs_accumulated (bowling_behaviour (player_objs (world_after (ScoreCard_add_run 0 4 match_world)) 2)) = 0 \<and>
   legal_balls (world_after (ScoreCard_add_run 0 4 match_world)) 2 = 0"
  by (simp add: ScoreCard_add_run_def call_defs BattingBehaviour_add_run_def Team_add_run_def
      bat_runs_def legal_balls_def example_defs)

subsection \<open>The team total after every mutation\<close>

text \<open>
  Claim C2: after every sequence of the four mutations (runs off the bat, extra, wicket,
  ball bowled) applied to a match that has begun and in which the batting team's total is
  the sum of its batters' runs off the bat and of its extras, the same team still bats and
  its total is still that sum, after each single mutation of the sequence, including one
  that raised.
\<close>

theorem team_total_after_every_mutation:
  assumes "match_begun self w" and "batting_team (card_objs w self) = Some t"
    and "total_is_bat_plus_extras w t"
  shows "list_all (\<lambda>w'. batting_team (card_objs w' self) = Some t \<and> total_is_bat_plus_extras w' t)
           (run_mutations self ms w)"
proof -
  from assms have "begun_with self t w" by (simp add: begun_with_def)
  then have "list_all (begun_with self t) (run_mutations self ms w)" by (rule run_preserves)
  then show ?thesis by (simp add: list_all_iff begun_with_def)
qed

theorem team_total_after_every_mutation_witness:
  "match_begun 0 match_world \<and> batting_team (card_objs match_world 0) = Some 0 \<and>
   total_is_bat_plus_extras match_world 0 \<and>
   list_all (\<lambda>w'. batting_team (card_objs w' 0) = Some 0 \<and> total_is_bat_plus_extras w' 0)
     (run_mutations 0 [RunsOffBat 1, RunsOffBat 4, Extra ''wides'' 1, BallBowled, Wicket, BallBowled]
        match_world)"
proof -
  have a: "match_begun 0 match_world" by (simp add: match_begun_def example_defs)
  have b: "batting_team (card_objs match_world 0) = Some 0" by (simp add: example_defs)
  have c: "total_is_bat_plus_extras match_world 0"
    by (simp add: total_is_bat_plus_extras_def batters_runs_def extras_total_def bat_runs_def example_defs)
  show ?thesis
    using a b c
      team_total_after_every_mutation [OF a b c,
        of "[RunsOffBat 1, RunsOffBat 4, Extra ''wides'' 1, BallBowled, Wicket, BallBowled]"]
    by (simp only: simp_thms)
qed

subsection \<open>Legal balls\<close>

lemma world_after_statements:
  assumes "\<And>f s. f \<in> set fs \<Longrightarrow> P s \<Longrightarrow> P (world_after (f s))" and "P s"
  shows "P (world_after (statements fs s))"
  using assms
proof (induction fs arbitrary: s)
  case Nil
  then show ?case by simp
next
  case (Cons f fs)
  show ?case
  proof (cases "f s")
    case (Inl e)
    with Cons.prems(1) [of f s] Cons.prems(2) show ?thesis by simp
  next
    case (Inr s')
    with Cons.prems(1) [of f s] Cons.prems(2) have "P s'" by simp
    with Cons.IH [of s'] Cons.prems(1) have "P (world_after (statements fs s'))" by simp
    with Inr show ?thesis by simp
  qed
qed

lemma legal_balls_cong:
  "(\<And>p. balls_done (bowling_behaviour (player_objs w' p)) = balls_done (bowling_behaviour (player_objs w p)))
   \<Longrightarrow> legal_balls w' = legal_balls w"
  by (rule ext) (simp add: legal_balls_def)

lemma call_team_same_counts:
  "same_counts w0 w \<Longrightarrow> same_counts w0 (world_after (call_team r m w))"
  by (cases r) (simp_all add: same_counts_def call_team_def legal_balls_def [abs_def])

lemma call_bowling_same_counts:
  assumes "\<And>b. balls_done (m b) = balls_done b" and "same_counts w0 w"
  shows "same_counts w0 (world_after (call_bowling r m w))"
proof (cases r)
  case None
  with assms(2) show ?thesis by (simp add: call_bowling_def)
next
  case (Some p)
  have "legal_balls (world_after (call_bowling (Some p) m w)) = legal_balls w"
    by (rule legal_balls_cong) (simp add: call_bowling_def assms(1))
  with assms(2) Some show ?thesis by (simp add: same_counts_def) (simp add: call_bowling_def)
qed

lemma add_extra_same_counts: "same_counts w (world_after (ScoreCard_add_extra self k n w))"
  unfolding ScoreCard_add_extra_def
proof (rule world_after_statements)
  show "same_counts w w" by (simp add: same_counts_def)
next
  fix f s
  assume "f \<in> set [\<lambda>w. call_team (batting_team (card_objs w self)) (Team_add_extras k n) w,
        \<lambda>w. call_team (bowling_team (card_objs w self)) (Team_add_extras k n) w,
        \<lambda>w. call_team (batting_team (card_objs w self)) (Team_add_run n) w,
        \<lambda>w. call_bowling (current_bowler (card_objs w self))
               (BowlingBehaviour_add_extra k n) w]" and "same_counts w s"
  then show "same_counts w (world_after (f s))"
    by (auto intro!: call_team_same_counts call_bowling_same_counts
        simp: BowlingBehaviour_add_extra_def BowlingBehaviour_add_run_def)
qed

lemma add_wicket_same_counts: "same_counts w (world_after (ScoreCard_add_wicket self w))"
  unfolding ScoreCard_add_wicket_def
proof (rule world_after_statements)
  show "same_counts w w" by (simp add: same_counts_def)
next
  fix f s
  assume "f \<in> set [\<lambda>w. call_team (batting_team (card_objs w self)) Team_add_wicket w,
        \<lambda>w. call_team (bowling_team (card_objs w self)) Team_add_wicket w,
        \<lambda>w. call_bowling (current_bowler (card_objs w self)) BowlingBehaviour_add_wicket w]"
    and "same_counts w s"
  then show "same_counts w (world_after (f s))"
    by (auto intro!: call_team_same_counts call_bowling_same_counts
        simp: BowlingBehaviour_add_wicket_def)
qed

text \<open>
  Claim C8: for every extras category (indeed every string) and every amount,
  \<^verbatim>\<open>ScoreCard.add_extra\<close> leaves the legal-ball count of every player, so that of the
  current bowler, and every scorecard, so the match ball counter and the bowler reference,
  as they were, whether it returns or raises. \<^verbatim>\<open>ScoreCard.add_wicket\<close> does the same: of the
  four mutations only the ball bowled and the runs off the bat count a ball.
\<close>

theorem extras_leave_ball_counts:
  "legal_balls (world_after (ScoreCard_add_extra self extra_type n w)) = legal_balls w \<and>
   card_objs (world_after (ScoreCard_add_extra self extra_type n w)) = card_objs w \<and>
   legal_balls (world_after (ScoreCard_add_wicket self w)) = legal_balls w \<and>
   card_objs (world_after (ScoreCard_add_wicket self w)) = card_objs w"
  using add_extra_same_counts [of w self extra_type n] add_wicket_same_counts [of w self]
  by (simp add: same_counts_def)

lemma ball_counts_advance:
  assumes "current_bowler (card_objs w self) = Some b"
  shows "legal_balls (world_after (ScoreCard_add_ball self w)) b = legal_balls w b + 1"
    and "balls (card_objs (world_after (ScoreCard_add_ball self w)) self) = balls (card_objs w self) + 1"
  using assms
  by (simp_all add: ScoreCard_add_ball_def call_bowling_def legal_balls_def BowlingBehaviour_add_ball_def)

subsection \<open>The score entry parser\<close>

text \<open>
  Claim C10: \<^verbatim>\<open>make_dict\<close> returns the empty dictionary for every row, so for every row and
  every world \<^verbatim>\<open>ScoreEntryParser.parse\<close> raises \<^verbatim>\<open>KeyError\<close> at the lookup of \<^verbatim>\<open>match_id\<close>.
  At that point only \<^verbatim>\<open>Matches()\<close> has run: every scorecard, team and player is as before.
\<close>

theorem parse_always_KeyError:
  "make_dict request = Map.empty \<and>
   ScoreEntryParser_parse beyond request w = Inl (KeyError, Matches_new w) \<and>
   card_objs (Matches_new w) = card_objs w \<and>
   team_objs (Matches_new w) = team_objs w \<and>
   player_objs (Matches_new w) = player_objs w"
  by (simp add: ScoreEntryParser_parse_def parse_run_info_def make_dict_def Matches_new_def Let_def)

subsection \<open>Over policy\<close>

lemma get_over_calculator_other: "num_balls \<noteq> Some 6 \<Longrightarrow> get_over_calculator num_balls = None"
  by (simp add: get_over_calculator_def)

lemma get_overs_other:
  "balls_per_over (card_objs w self) \<noteq> Some 6 \<Longrightarrow> ScoreCard_get_overs self w = Inl AttributeError"
  by (simp add: ScoreCard_get_overs_def get_over_calculator_def)

lemma get_overs_six:
  "balls_per_over (card_objs w self) = Some 6 \<Longrightarrow>
   ScoreCard_get_overs self w = Inr (balls (card_objs w self) div 6, balls (card_objs w self) mod 6)"
  by (simp add: ScoreCard_get_overs_def get_over_calculator_def)

text \<open>
  Claim C7 says that an over length without a policy is signalled as a configuration error.
  In the code \<^verbatim>\<open>get_over_calculator\<close> signals nothing: for 5, and for an unset over length,
  it returns \<^verbatim>\<open>None\<close>. \<^verbatim>\<open>ScoreCard.get_overs\<close> then calls \<^verbatim>\<open>calculate\<close> on \<^verbatim>\<open>None\<close> and fails
  with \<^verbatim>\<open>AttributeError\<close>.
\<close>

theorem five_ball_over_no_calculator:
  "get_over_calculator (Some 5) = None \<and>
   get_over_calculator None = None \<and>
   ScoreCard_get_overs 0 (ScoreCard_set_balls_per_over 0 5 match_world) = Inl AttributeError"
  by (simp add: get_over_calculator_def ScoreCard_get_overs_def ScoreCard_set_balls_per_over_def update_card_def)

subsection \<open>The match registry\<close>

text \<open>
  Claim C6 says that a score event for a match identifier without a scorecard surfaces an
  error and that \<^verbatim>\<open>Matches.get_scorecard\<close> does not silently proceed. It does proceed: in
  the example world ``335983'' is not registered, and the lookup returns normally, with
  a new scorecard 1 now registered under that identifier.
\<close>

theorem get_scorecard_unknown_no_error:
  "map_of (Matches_matches match_world) ''335983'' = None \<and>
   \<not> isl (Matches_get_scorecard ''335983'' match_world) \<and>
   fst (projr (Matches_get_scorecard ''335983'' match_world)) = 1 \<and>
   map_of (Matches_matches (snd (projr (Matches_get_scorecard ''335983'' match_world)))) ''335983'' = Some 1"
  by (simp add: Matches_get_scorecard_def match_world_def)

text \<open>
  Claim C6 as amended: for every match identifier that is not in the registry,
  \<^verbatim>\<open>Matches.get_scorecard\<close> raises nothing; it makes a new, empty \<^verbatim>\<open>ScoreCard\<close>, registers
  it under the identifier and returns it, and no team or player is changed.
\<close>

theorem get_scorecard_creates:
  assumes "map_of (Matches_matches w) match_id = None"
  shows "case Matches_get_scorecard match_id w of
           Inl e \<Rightarrow> False
         | Inr (scorecard, w') \<Rightarrow>
             scorecard = next_card w \<and> card_objs w' scorecard = ScoreCard_init \<and>
             map_of (Matches_matches w') match_id = Some scorecard \<and>
             team_objs w' = team_objs w \<and> player_objs w' = player_objs w"
  using assms by (simp add: Matches_get_scorecard_def Let_def map_add_def)

theorem get_scorecard_creates_witness:
  "map_of (Matches_matches empty_world) ''335982'' = None \<and>
   (case Matches_get_scorecard ''335982'' empty_world of
      Inl e \<Rightarrow> False
    | Inr (scorecard, w') \<Rightarrow>
        scorecard = next_card empty_world \<and> card_objs w' scorecard = ScoreCard_init \<and>
        map_of (Matches_matches w') ''335982'' = Some scorecard \<and>
        team_objs w' = team_objs empty_world \<and> player_objs w' = player_objs empty_world)"
proof -
  have a: "map_of (Matches_matches empty_world) ''335982'' = None" by (simp add: empty_world_def)
  show ?thesis using a get_scorecard_creates [OF a] by (simp only: simp_thms)
qed

lemma get_scorecard_known:
  "map_of (Matches_matches w) match_id = Some scorecard \<Longrightarrow>
   Matches_get_scorecard match_id w = Inr (scorecard, w)"
  by (simp add: Matches_get_scorecard_def)

subsection \<open>Rosters\<close>

text \<open>
  Claim C5 says that adding a player whose name is already on the roster leaves exactly one
  roster entry for that name. Here team 0 has one entry named ``Gaikwad''; after
  \<^verbatim>\<open>add_player\<close> of another player object with that name it has two.
\<close>

theorem add_player_duplicates_name:
  "name (player_objs namesake_world 3) = ''Gaikwad'' \<and>
   roster_entries namesake_world 0 ''Gaikwad'' = 1 \<and>
   roster_entries (world_after (call_team (Some 0) (Team_add_player 3) namesake_world)) 0 ''Gaikwad'' = 2"
  by (simp add: roster_entries_def call_team_def Team_add_player_def namesake_world_def example_defs)

text \<open>
  Claim C5 as amended: \<^verbatim>\<open>Team.add_player\<close> always appends. For every team and every player,
  the roster afterwards is the old roster followed by that player, so the number of roster
  entries with the player's name grows by one (to two when there was one), and no player
  object, so no accumulated statistic, is changed by the add.
\<close>

theorem add_player_appends:
  "raised (call_team (Some t) (Team_add_player p) w) = None \<and>
   players (team_objs (world_after (call_team (Some t) (Team_add_player p) w)) t) =
     players (team_objs w t) @ [p] \<and>
   roster_entries (world_after (call_team (Some t) (Team_add_player p) w)) t (name (player_objs w p)) =
     Suc (roster_entries w t (name (player_objs w p))) \<and>
   player_objs (world_after (call_team (Some t) (Team_add_player p) w)) = player_objs w"
  by (simp add: roster_entries_def call_team_def Team_add_player_def)

subsection \<open>Current participants\<close>

lemma pick_by_name_last:
  "pick_by_name w n roster current =
     (case last_named w n roster of None \<Rightarrow> current | Some p \<Rightarrow> Some p)"
  by (induction roster arbitrary: current rule: rev_induct)
     (simp_all add: pick_by_name_def last_named_def Let_def)

text \<open>
  Claim C4 says that \<^verbatim>\<open>set_current_players\<close> fails with a \<^verbatim>\<open>LookupError\<close> when a name is on
  no roster, and then changes no reference. In the example match no batter is called
  ``Nobody'', yet the call with that non-striker name returns normally and has moved the
  striker from player 0 to player 1.
\<close>

theorem set_current_players_counterexample:
  "last_named match_world ''Nobody'' (players (team_objs match_world 0)) = None \<and>
   raised (ScoreCard_set_current_players 0 ''Conway'' ''Nobody'' ''Umesh'' match_world) = None \<and>
   striker (card_objs match_world 0) = Some 0 \<and>
   striker (card_objs (world_after
     (ScoreCard_set_current_players 0 ''Conway'' ''Nobody'' ''Umesh'' match_world)) 0) = Some 1"
  by (simp add: ScoreCard_set_current_players_def pick_by_name_def update_card_def last_named_def
      example_defs)

text \<open>
  Claim C4 as amended: when both teams are set, \<^verbatim>\<open>set_current_players\<close> returns normally for
  all three names. Each of striker, non-striker and bowler becomes the last player of its
  team's roster with the given name; a reference whose name is on no roster entry keeps its
  value, and the other references are still updated.
\<close>

theorem set_current_players_silent:
  assumes "batting_team (card_objs w self) = Some bt" and "bowling_team (card_objs w self) = Some wt"
  shows "raised (ScoreCard_set_current_players self striker_name non_striker_name bowler_name w) = None \<and>
    card_objs (world_after
        (ScoreCard_set_current_players self striker_name non_striker_name bowler_name w)) self =
      (card_objs w self)
        \<lparr>striker := (case last_named w striker_name (players (team_objs w bt)) of
                       None \<Rightarrow> striker (card_objs w self) | Some p \<Rightarrow> Some p),
         non_striker := (case last_named w non_striker_name (players (team_objs w bt)) of
                       None \<Rightarrow> non_striker (card_objs w self) | Some p \<Rightarrow> Some p),
         current_bowler := (case last_named w bowler_name (players (team_objs w wt)) of
                       None \<Rightarrow> current_bowler (card_objs w self) | Some p \<Rightarrow> Some p)\<rparr>"
proof -
  have same: "pick_by_name (w\<lparr>card_objs := x\<rparr>) = pick_by_name w" for x
    by (intro ext) (simp add: pick_by_name_def)
  show ?thesis
    using assms
    by (simp add: ScoreCard_set_current_players_def update_card_def same)
       (simp add: pick_by_name_last)
qed

theorem set_current_players_silent_witness:
  "batting_team (card_objs match_world 0) = Some 0 \<and> bowling_team (card_objs match_world 0) = Some 1 \<and>
   raised (ScoreCard_set_current_players 0 ''Conway'' ''Gaikwad'' ''Nobody'' match_world) = None \<and>
   card_objs (world_after (ScoreCard_set_current_players 0 ''Conway'' ''Gaikwad'' ''Nobody'' match_world)) 0 =
     (card_objs match_world 0)\<lparr>striker := Some 1, non_striker := Some 0, current_bowler := Some 2\<rparr>"
proof -
  have a: "batting_team (card_objs match_world 0) = Some 0" by (simp add: example_defs)
  have b: "bowling_team (card_objs match_world 0) = Some 1" by (simp add: example_defs)
  show ?thesis
    using a b set_current_players_silent [OF a b, of "''Conway''" "''Gaikwad''" "''Nobody''"]
    by (simp add: last_named_def example_defs)
qed

subsection \<open>The dispatcher\<close>

lemmas py_int_defs = py_int_def plain_def ascii_int_def strip_def is_space_def unsigned_value_def is_digit_def digit_value_def

lemmas scorecard_defs = ScoreCard_add_run_def ScoreCard_add_extra_def ScoreCard_add_wicket_def
  ScoreCard_add_ball_def BattingBehaviour_add_run_def BowlingBehaviour_add_run_def
  BowlingBehaviour_add_ball_def BowlingBehaviour_add_extra_def BowlingBehaviour_add_wicket_def
  Team_add_run_def Team_add_extras_def Team_add_wicket_def

text \<open>
  The loop has no \<^verbatim>\<open>break\<close>: when the three predicates match and the three mutations return,
  all three have been applied, in the order of \<^verbatim>\<open>get_run_calculators\<close>. A mutation that
  raises ends the loop.
\<close>

lemma all_matching_fire:
  assumes "match beyond NormalRunCalculator run_info = Inr True"
    and "match beyond ExtraRunCalculator run_info = Inr True"
    and "match beyond WicketCalculator run_info = Inr True"
    and "calculate_run beyond NormalRunCalculator scorecard run_info w = Inr w1"
    and "calculate_run beyond ExtraRunCalculator scorecard run_info w1 = Inr w2"
    and "calculate_run beyond WicketCalculator scorecard run_info w2 = Inr w3"
  shows "run_calculators_loop beyond get_run_calculators scorecard run_info w = Inr w3"
  using assms by (simp add: get_run_calculators_def)

lemma first_raise_ends_loop:
  assumes "match beyond NormalRunCalculator run_info = Inr True"
    and "calculate_run beyond NormalRunCalculator scorecard run_info w = Inl e"
  shows "run_calculators_loop beyond get_run_calculators scorecard run_info w = Inl e"
  using assms by (simp add: get_run_calculators_def)

text \<open>A single with a bye and a run-out: run, extra and wicket are all applied.\<close>

lemma single_event_all_fire:
  "raised (run_calculators_loop beyond get_run_calculators 0 single_event match_world) = None \<and>
   Team.runs_scored (team_objs (world_after
      (run_calculators_loop beyond get_run_calculators 0 single_event match_world)) 0) = 2 \<and>
   extras (team_objs (world_after
      (run_calculators_loop beyond get_run_calculators 0 single_event match_world)) 0) = [(''byes'', 1)] \<and>
   wickets (team_objs (world_after
      (run_calculators_loop beyond get_run_calculators 0 single_event match_world)) 0) = 1"
  by (simp add: get_run_calculators_def extra_types_def single_event_def py_int_defs scorecard_defs
      call_defs example_defs)

text \<open>
  Claim C9 says that on every event on which the three predicates match, the run, the extra
  and the wicket are all applied. The code does not do this when the runs off the bat are a
  four: all three predicates match on the event, the run mutation raises \<^verbatim>\<open>KeyError\<close> at the
  striker's missing boundary bucket, and the loop is left with the team total at 4, no
  extra recorded and no wicket counted. The fields of the event are plain strings: this
  holds for every reading \<open>beyond\<close> of the other strings.
\<close>

theorem boundary_event_stops_dispatch:
  "match beyond NormalRunCalculator boundary_event = Inr True \<and>
   match beyond ExtraRunCalculator boundary_event = Inr True \<and>
   match beyond WicketCalculator boundary_event = Inr True \<and>
   raised (run_calculators_loop beyond get_run_calculators 0 boundary_event match_world) = Some KeyError \<and>
   Team.runs_scored (team_objs (world_after
      (run_calculators_loop beyond get_run_calculators 0 boundary_event match_world)) 0) = 4 \<and>
   extras (team_objs (world_after
      (run_calculators_loop beyond get_run_calculators 0 boundary_event match_world)) 0) = [] \<and>
   wickets (team_objs (world_after
      (run_calculators_loop beyond get_run_calculators 0 boundary_event match_world)) 0) = 0 \<and>
   wickets_taken (bowling_behaviour (player_objs (world_after
      (run_calculators_loop beyond get_run_calculators 0 boundary_event match_world)) 2)) = 0"
  by (simp add: get_run_calculators_def extra_types_def boundary_event_def single_event_def
      py_int_defs scorecard_defs call_defs example_defs)

subsection \<open>Malformed fields\<close>

text \<open>
  The loop over the extra types stops at the first field that is not empty and not a
  number, after the extras of the types before it.
\<close>

lemma add_extras_loop_malformed:
  assumes "run_info t = Some c" "c \<noteq> []" "py_int beyond c = None"
  shows "add_extras_loop beyond (before @ t # after) scorecard run_info w =
           then_raise ValueError (add_extras_loop beyond before scorecard run_info w)"
  using assms
  by (induction before arbitrary: w) (auto simp: then_raise_def split: option.splits sum.splits)

text \<open>
  A single with an extras total that is not a number: whatever the interpreter reads from
  strings that are not plain, the loop raises \<^verbatim>\<open>ValueError\<close> with the run applied.
\<close>

lemma malformed_extras_event_outcome:
  "raised (run_calculators_loop beyond get_run_calculators 0 malformed_extras_event match_world) =
     Some ValueError \<and>
   Team.runs_scored (team_objs match_world 0) = 0 \<and>
   Team.runs_scored (team_objs (world_after
      (run_calculators_loop beyond get_run_calculators 0 malformed_extras_event match_world)) 0) = 1 \<and>
   bat_runs (world_after
      (run_calculators_loop beyond get_run_calculators 0 malformed_extras_event match_world)) 0 = 1 \<and>
   legal_balls (world_after
      (run_calculators_loop beyond get_run_calculators 0 malformed_extras_event match_world)) 2 = 1"
  by (simp add: get_run_calculators_def extra_types_def malformed_extras_event_def single_event_def
      py_int_defs scorecard_defs call_defs example_defs bat_runs_def legal_balls_def)

text \<open>
  Claim C3 says that an event with a non-integer run or extra count is rejected as a whole,
  and names the case of valid positive runs off the bat with a malformed extras field.
  In that case the code raises \<^verbatim>\<open>ValueError\<close> only after the run has been applied: the team
  total has gone from 0 to 1, the striker has the run and the bowler the ball. The fields of
  the event are plain strings, so the reading of other strings, here one that refuses them
  all, plays no part.
\<close>

theorem malformed_extras_keeps_run:
  "malformed_extras_event ''runs_off_bat'' = Some ''1'' \<and> py_int (\<lambda>s. None) ''1'' = Some 1 \<and>
   malformed_extras_event ''extras'' = Some ''x'' \<and> py_int (\<lambda>s. None) ''x'' = None \<and>
   raised (run_calculators_loop (\<lambda>s. None) get_run_calculators 0 malformed_extras_event match_world) =
     Some ValueError \<and>
   Team.runs_scored (team_objs match_world 0) = 0 \<and>
   Team.runs_scored (team_objs (world_after
      (run_calculators_loop (\<lambda>s. None) get_run_calculators 0 malformed_extras_event match_world)) 0) = 1 \<and>
   bat_runs (world_after
      (run_calculators_loop (\<lambda>s. None) get_run_calculators 0 malformed_extras_event match_world)) 0 = 1 \<and>
   legal_balls (world_after
      (run_calculators_loop (\<lambda>s. None) get_run_calculators 0 malformed_extras_event match_world)) 2 = 1"
  by (simp add: get_run_calculators_def extra_types_def malformed_extras_event_def single_event_def
      py_int_defs scorecard_defs call_defs example_defs bat_runs_def legal_balls_def)

text \<open>
  Claim C3 as amended: a non-integer value in a run or extra field surfaces as
  \<^verbatim>\<open>ValueError\<close> when, and only if, the code reads that field, and what has been applied before
  the read stays applied. (1) The runs off the bat are read first: if they are not an
  integer, \<^verbatim>\<open>ValueError\<close> is raised and nothing has been applied. (2) The extras total is read
  next, after the run mutation, which is applied when the runs are positive: if the total
  is not an integer, the event ends in an error with the scorecard as the run mutation left
  it, \<^verbatim>\<open>ValueError\<close> unless the run mutation raised itself. (3) A category field is read only
  when the extras total is a positive integer, in the order wides, noballs, byes, legbyes,
  penalty: a value there that is not empty and not an integer ends the event in an error
  after the run mutation and the extras of the categories before it, \<^verbatim>\<open>ValueError\<close> unless
  one of those raised itself. (4) When the extras total is an integer that is not positive,
  no category field is read: the event is processed from the runs and the wicket type
  alone, and a non-integer category value raises nothing.
\<close>

theorem malformed_field_read_order:
  "(run_info ''runs_off_bat'' = Some v \<and> py_int beyond v = None \<longrightarrow>
      run_calculators_loop beyond get_run_calculators scorecard run_info w = Inl (ValueError, w)) \<and>
   (run_info ''runs_off_bat'' = Some v \<and> py_int beyond v = Some n \<and>
    run_info ''extras'' = Some x \<and> py_int beyond x = None \<longrightarrow>
      run_calculators_loop beyond get_run_calculators scorecard run_info w =
        then_raise ValueError (run_part scorecard n w)) \<and>
   (run_info ''runs_off_bat'' = Some v \<and> py_int beyond v = Some n \<and>
    run_info ''extras'' = Some x \<and> py_int beyond x = Some m \<and> 0 < m \<and>
    extra_types = before @ t # after \<and>
    run_info t = Some c \<and> c \<noteq> [] \<and> py_int beyond c = None \<longrightarrow>
      run_calculators_loop beyond get_run_calculators scorecard run_info w =
        then_raise ValueError
          (statements [run_part scorecard n, add_extras_loop beyond before scorecard run_info] w)) \<and>
   (run_info ''runs_off_bat'' = Some v \<and> py_int beyond v = Some n \<and>
    run_info ''extras'' = Some x \<and> py_int beyond x = Some m \<and> m \<le> 0 \<and>
    run_info ''wicket_type'' = Some k \<longrightarrow>
      run_calculators_loop beyond get_run_calculators scorecard run_info w =
        statements [run_part scorecard n, wicket_part scorecard k] w)"
proof (intro conjI impI)
  assume "run_info ''runs_off_bat'' = Some v \<and> py_int beyond v = None"
  then show "run_calculators_loop beyond get_run_calculators scorecard run_info w = Inl (ValueError, w)"
    by (simp add: get_run_calculators_def)
next
  assume "run_info ''runs_off_bat'' = Some v \<and> py_int beyond v = Some n \<and>
    run_info ''extras'' = Some x \<and> py_int beyond x = None"
  then show "run_calculators_loop beyond get_run_calculators scorecard run_info w =
        then_raise ValueError (run_part scorecard n w)"
    by (simp add: get_run_calculators_def then_raise_def run_part_def split: sum.splits)
next
  assume a: "run_info ''runs_off_bat'' = Some v \<and> py_int beyond v = Some n \<and>
    run_info ''extras'' = Some x \<and> py_int beyond x = Some m \<and> 0 < m \<and>
    extra_types = before @ t # after \<and>
    run_info t = Some c \<and> c \<noteq> [] \<and> py_int beyond c = None"
  then have et: "extra_types = before @ t # after"
    and rt: "run_info t = Some c" "c \<noteq> []" "py_int beyond c = None"
    by simp_all
  have l: "add_extras_loop beyond extra_types scorecard run_info w' =
      then_raise ValueError (add_extras_loop beyond before scorecard run_info w')" for w'
    unfolding et using rt by (rule add_extras_loop_malformed)
  from a show "run_calculators_loop beyond get_run_calculators scorecard run_info w =
        then_raise ValueError
          (statements [run_part scorecard n, add_extras_loop beyond before scorecard run_info] w)"
  proof (cases "run_part scorecard n w")
    case (Inl e)
    with a show ?thesis
      by (auto simp: get_run_calculators_def run_part_def then_raise_def split: if_splits)
  next
    case (Inr w1)
    obtain e where e: "add_extras_loop beyond extra_types scorecard run_info w1 = Inl e"
      using l [of w1]
      by (cases "add_extras_loop beyond before scorecard run_info w1") (auto simp: then_raise_def)
    have "run_calculators_loop beyond get_run_calculators scorecard run_info w = Inl e"
      using a Inr e by (auto simp: get_run_calculators_def run_part_def split: if_splits)
    moreover have "statements [run_part scorecard n, add_extras_loop beyond before scorecard run_info] w =
        add_extras_loop beyond before scorecard run_info w1"
      using Inr by (cases "add_extras_loop beyond before scorecard run_info w1") simp_all
    ultimately show ?thesis using e l [of w1] by simp
  qed
next
  assume "run_info ''runs_off_bat'' = Some v \<and> py_int beyond v = Some n \<and>
    run_info ''extras'' = Some x \<and> py_int beyond x = Some m \<and> m \<le> 0 \<and>
    run_info ''wicket_type'' = Some k"
  then show "run_calculators_loop beyond get_run_calculators scorecard run_info w =
        statements [run_part scorecard n, wicket_part scorecard k] w"
    by (simp add: get_run_calculators_def run_part_def wicket_part_def split: sum.splits)
qed

theorem malformed_field_read_order_witness:
  "malformed_runs_event ''runs_off_bat'' = Some ''x'' \<and> py_int (\<lambda>s. None) ''x'' = None \<and>
   run_calculators_loop (\<lambda>s. None) get_run_calculators 0 malformed_runs_event match_world =
     Inl (ValueError, match_world) \<and>
   malformed_extras_event ''runs_off_bat'' = Some ''1'' \<and> py_int (\<lambda>s. None) ''1'' = Some 1 \<and>
   malformed_extras_event ''extras'' = Some ''x'' \<and>
   run_calculators_loop (\<lambda>s. None) get_run_calculators 0 malformed_extras_event match_world =
     then_raise ValueError (run_part 0 1 match_world) \<and>
   malformed_category_event ''extras'' = Some ''2'' \<and> py_int (\<lambda>s. None) ''2'' = Some 2 \<and>
   extra_types = [''wides'', ''noballs''] @ ''byes'' # [''legbyes'', ''penalty''] \<and>
   malformed_category_event ''byes'' = Some ''x'' \<and>
   run_calculators_loop (\<lambda>s. None) get_run_calculators 0 malformed_category_event match_world =
     then_raise ValueError
       (statements [run_part 0 1,
          add_extras_loop (\<lambda>s. None) [''wides'', ''noballs''] 0 malformed_category_event] match_world) \<and>
   raised (run_calculators_loop (\<lambda>s. None) get_run_calculators 0 malformed_category_event match_world) =
     Some ValueError \<and>
   extras (team_objs (world_after
     (run_calculators_loop (\<lambda>s. None) get_run_calculators 0 malformed_category_event match_world)) 0) =
     [(''wides'', 1)] \<and>
   unread_category_event ''runs_off_bat'' = Some ''0'' \<and> py_int (\<lambda>s. None) ''0'' = Some 0 \<and>
   unread_category_event ''extras'' = Some ''0'' \<and> unread_category_event ''byes'' = Some ''x'' \<and>
   unread_category_event ''wicket_type'' = Some [] \<and>
   run_calculators_loop (\<lambda>s. None) get_run_calculators 0 unread_category_event match_world =
     Inr match_world"
proof -
  have ints: "py_int (\<lambda>s. None) ''x'' = None" "py_int (\<lambda>s. None) ''0'' = Some 0"
    "py_int (\<lambda>s. None) ''1'' = Some 1" "py_int (\<lambda>s. None) ''2'' = Some 2"
    by (simp_all add: py_int_defs)
  have r: "malformed_runs_event ''runs_off_bat'' = Some ''x''"
    by (simp add: malformed_runs_event_def single_event_def)
  have e: "malformed_extras_event ''runs_off_bat'' = Some ''1''"
    "malformed_extras_event ''extras'' = Some ''x''"
    by (simp_all add: malformed_extras_event_def single_event_def)
  have c: "malformed_category_event ''runs_off_bat'' = Some ''1''"
    "malformed_category_event ''extras'' = Some ''2''"
    "malformed_category_event ''byes'' = Some ''x''"
    by (simp_all add: malformed_category_event_def single_event_def)
  have u: "unread_category_event ''runs_off_bat'' = Some ''0''"
    "unread_category_event ''extras'' = Some ''0''"
    "unread_category_event ''byes'' = Some ''x''"
    "unread_category_event ''wicket_type'' = Some []"
    by (simp_all add: unread_category_event_def single_event_def)
  have t: "extra_types = [''wides'', ''noballs''] @ ''byes'' # [''legbyes'', ''penalty'']"
    by (simp add: extra_types_def)
  note thm1 = malformed_field_read_order [where beyond = "\<lambda>s. None" and run_info = malformed_runs_event
      and v = "''x''" and scorecard = 0 and w = match_world]
  note thm2 = malformed_field_read_order [where beyond = "\<lambda>s. None" and run_info = malformed_extras_event
      and v = "''1''" and n = 1 and x = "''x''" and scorecard = 0 and w = match_world]
  note thm3 = malformed_field_read_order [where beyond = "\<lambda>s. None" and run_info = malformed_category_event
      and v = "''1''" and n = 1 and x = "''2''" and m = 2 and before = "[''wides'', ''noballs'']"
      and t = "''byes''" and after = "[''legbyes'', ''penalty'']" and c = "''x''"
      and scorecard = 0 and w = match_world]
  note thm4 = malformed_field_read_order [where beyond = "\<lambda>s. None" and run_info = unread_category_event
      and v = "''0''" and n = 0 and x = "''0''" and m = 0 and k = "[]" and scorecard = 0 and w = match_world]
  have one: "run_calculators_loop (\<lambda>s. None) get_run_calculators 0 malformed_runs_event match_world =
     Inl (ValueError, match_world)"
    using thm1 r ints by simp
  have two: "run_calculators_loop (\<lambda>s. None) get_run_calculators 0 malformed_extras_event match_world =
     then_raise ValueError (run_part 0 1 match_world)"
    using thm2 e ints by simp
  have three: "run_calculators_loop (\<lambda>s. None) get_run_calculators 0 malformed_category_event match_world =
     then_raise ValueError
       (statements [run_part 0 1,
          add_extras_loop (\<lambda>s. None) [''wides'', ''noballs''] 0 malformed_category_event] match_world)"
    using thm3 c ints t by simp
  have four: "run_calculators_loop (\<lambda>s. None) get_run_calculators 0 unread_category_event match_world =
     Inr match_world"
    using thm4 u ints by (simp add: run_part_def wicket_part_def)
  have three_raised:
    "raised (then_raise ValueError
       (statements [run_part 0 1,
          add_extras_loop (\<lambda>s. None) [''wides'', ''noballs''] 0 malformed_category_event] match_world)) =
     Some ValueError"
    "extras (team_objs (world_after (then_raise ValueError
       (statements [run_part 0 1,
          add_extras_loop (\<lambda>s. None) [''wides'', ''noballs''] 0 malformed_category_event] match_world))) 0) =
     [(''wides'', 1)]"
    by (simp_all add: then_raise_def run_part_def malformed_category_event_def single_event_def
        py_int_defs scorecard_defs call_defs example_defs)
  show ?thesis
    using one two three four three_raised r e c u ints t by (simp only: simp_thms)
qed

end
